theory Spec2Isabelle
  imports Main "HOL-Library.Char_ord" "HOL-Library.List_Lexorder"
begin

section \<open>The gssh wrapper: host profiles, ssh arguments, command rendering\<close>

text \<open>
  A shallow embedding of \<^verbatim>\<open>main.go\<close>. Go strings are byte sequences and are modelled
  as \<^typ>\<open>string\<close>; Go's \<^verbatim>\<open>int\<close> is modelled as \<^typ>\<open>int\<close>, since the program only
  compares and prints the port and never computes with it. A run of \<^verbatim>\<open>main\<close> is a
  function of the parsed command line and of what the process finds outside itself
  (home directory, directories, environment, profile file, the ssh client); its result is
  what it printed and its exit status.
\<close>

subsection \<open>Characters that cannot be written inside a string literal\<close>

abbreviation dquote :: char where "dquote \<equiv> CHR 0x22"
abbreviation squote :: char where "squote \<equiv> CHR 0x27"
abbreviation backslash :: char where "backslash \<equiv> CHR 0x5C"
abbreviation tab :: char where "tab \<equiv> CHR 0x09"
abbreviation newline :: char where "newline \<equiv> CHR 0x0A"

subsection \<open>Library functions the program calls\<close>

text \<open>\<^verbatim>\<open>fmt.Sprintf("%d", n)\<close>: a minus sign for a negative number, then the decimal digits
  of the magnitude, most significant first, with no leading zero.\<close>

definition digit :: "nat \<Rightarrow> char" where
  "digit d = ''0123456789'' ! d"

fun fmtUint :: "nat \<Rightarrow> string" where
  "fmtUint n = (if n < 10 then [digit n] else fmtUint (n div 10) @ [digit (n mod 10)])"

declare fmtUint.simps [simp del]

definition Sprintf_d :: "int \<Rightarrow> string" where
  "Sprintf_d i = (if i < 0 then CHR ''-'' # fmtUint (nat (- i)) else fmtUint (nat i))"

text \<open>\<^verbatim>\<open>fmt.Sprintf("%s@%s", a, b)\<close>.\<close>

definition Sprintf_s_at_s :: "string \<Rightarrow> string \<Rightarrow> string" where
  "Sprintf_s_at_s a b = a @ ''@'' @ b"

text \<open>\<^verbatim>\<open>strings.ContainsAny(s, chars)\<close> for an ASCII \<^verbatim>\<open>chars\<close>: some byte of \<^verbatim>\<open>s\<close>
  is one of them.\<close>

definition ContainsAny :: "string \<Rightarrow> string \<Rightarrow> bool" where
  "ContainsAny s chars = list_ex (\<lambda>c. c \<in> set chars) s"

text \<open>\<^verbatim>\<open>strings.ReplaceAll(s, old, new)\<close> for a one-byte \<^verbatim>\<open>old\<close>, which is what both
  calls in \<^verbatim>\<open>quote\<close> pass: a scan from the left, each occurrence replaced.\<close>

fun ReplaceAll :: "string \<Rightarrow> char \<Rightarrow> string \<Rightarrow> string" where
  "ReplaceAll [] old new = []"
| "ReplaceAll (c # cs) old new =
     (if c = old then new @ ReplaceAll cs old new else c # ReplaceAll cs old new)"

text \<open>\<^verbatim>\<open>strings.Join(elems, sep)\<close>.\<close>

fun Join :: "string list \<Rightarrow> string \<Rightarrow> string" where
  "Join [] sep = []"
| "Join [x] sep = x"
| "Join (x # y # ys) sep = x @ sep @ Join (y # ys) sep"

subsection \<open>The host profile\<close>

record HostConfig =
  Host :: string
  User :: string
  Port :: int
  Identity :: string

subsection \<open>\<^verbatim>\<open>buildSSHArgs\<close>\<close>

definition buildSSHArgs :: "HostConfig \<Rightarrow> string list \<Rightarrow> string list" where
  "buildSSHArgs cfg remoteCmd =
     (let args0 = [];
          args1 = (if Identity cfg \<noteq> [] then args0 @ [''-i'', Identity cfg] else args0);
          args2 = (if Port cfg \<noteq> 0 \<and> Port cfg \<noteq> 22
                   then args1 @ [''-p'', Sprintf_d (Port cfg)] else args1);
          dest0 = Host cfg;
          dest = (if User cfg \<noteq> [] then Sprintf_s_at_s (User cfg) (Host cfg) else dest0);
          args3 = args2 @ [dest];
          args4 = (if length remoteCmd > 0 then args3 @ remoteCmd else args3)
      in args4)"

subsection \<open>\<^verbatim>\<open>renderCommand\<close>, \<^verbatim>\<open>needsQuoting\<close>, \<^verbatim>\<open>quote\<close>\<close>

definition needsQuoting :: "string \<Rightarrow> bool" where
  "needsQuoting s = ContainsAny s [CHR '' '', tab, dquote, squote]"

definition quote :: "string \<Rightarrow> string" where
  "quote s =
     (let r = ReplaceAll s backslash [backslash, backslash];
          r' = ReplaceAll r dquote [backslash, dquote]
      in [dquote] @ r' @ [dquote])"

text \<open>The loop of \<^verbatim>\<open>renderCommand\<close> over \<^verbatim>\<open>args\<close>, with \<^verbatim>\<open>parts\<close> as the accumulator.\<close>

fun renderCommand_loop :: "string list \<Rightarrow> string list \<Rightarrow> string list" where
  "renderCommand_loop parts [] = parts"
| "renderCommand_loop parts (a # as) =
     renderCommand_loop (if needsQuoting a then parts @ [quote a] else parts @ [a]) as"

definition renderCommand :: "string \<Rightarrow> string list \<Rightarrow> string" where
  "renderCommand cmd args = Join (renderCommand_loop [cmd] args) '' ''"

subsection \<open>More library functions: case mapping, file names, sorting\<close>

text \<open>\<^verbatim>\<open>strings.ToLower\<close> and \<^verbatim>\<open>strings.ToUpper\<close> on the ASCII letters. Bytes outside
  ASCII are left as they are: the program compares the results only with ASCII literals
  (\<^verbatim>\<open>.yaml\<close>, \<^verbatim>\<open>.yml\<close>) or applies them to ASCII keys, and no non-ASCII letter has
  \<^verbatim>\<open>y\<close>, \<^verbatim>\<open>a\<close>, \<^verbatim>\<open>m\<close> or \<^verbatim>\<open>l\<close> as its lower case.\<close>

definition upper_letters :: string where
  "upper_letters = ''ABCDEFGHIJKLMNOPQRSTUVWXYZ''"

definition lower_letters :: string where
  "lower_letters = ''abcdefghijklmnopqrstuvwxyz''"

definition toLower_byte :: "char \<Rightarrow> char" where
  "toLower_byte c = (case map_of (zip upper_letters lower_letters) c of Some d \<Rightarrow> d | None \<Rightarrow> c)"

definition toUpper_byte :: "char \<Rightarrow> char" where
  "toUpper_byte c = (case map_of (zip lower_letters upper_letters) c of Some d \<Rightarrow> d | None \<Rightarrow> c)"

definition ToLower :: "string \<Rightarrow> string" where
  "ToLower s = map toLower_byte s"

definition ToUpper :: "string \<Rightarrow> string" where
  "ToUpper s = map toUpper_byte s"

text \<open>\<^verbatim>\<open>filepath.Ext(path)\<close>: the scan runs from the last byte towards the first, stops at a
  path separator, and returns the suffix that starts at the first dot it meets.
  \<^verbatim>\<open>Ext_scan\<close> takes the bytes still to visit (last byte first) and the bytes already
  passed. The separator is \<^verbatim>\<open>/\<close>; the name of a directory entry contains none.\<close>

fun Ext_scan :: "string \<Rightarrow> string \<Rightarrow> string" where
  "Ext_scan [] passed = []"
| "Ext_scan (c # rest) passed =
     (if c = CHR ''/'' then []
      else if c = CHR ''.'' then c # passed
      else Ext_scan rest (c # passed))"

definition Ext :: "string \<Rightarrow> string" where
  "Ext path = Ext_scan (rev path) []"

text \<open>\<^verbatim>\<open>strings.HasSuffix\<close> and \<^verbatim>\<open>strings.TrimSuffix\<close> (byte-wise, case-sensitive).\<close>

definition HasSuffix :: "string \<Rightarrow> string \<Rightarrow> bool" where
  "HasSuffix s suffix =
     (length suffix \<le> length s \<and> drop (length s - length suffix) s = suffix)"

definition TrimSuffix :: "string \<Rightarrow> string \<Rightarrow> string" where
  "TrimSuffix s suffix = (if HasSuffix s suffix then take (length s - length suffix) s else s)"

text \<open>\<^verbatim>\<open>sort.Strings\<close>: ascending in Go's string order, which compares byte by byte.\<close>

definition sort_Strings :: "string list \<Rightarrow> string list" where
  "sort_Strings xs = sort xs"

subsection \<open>The outside world\<close>

text \<open>Errors are values; \<^verbatim>\<open>err.Error()\<close> is the message.\<close>

datatype error = Err string

fun Error :: "error \<Rightarrow> string" where
  "Error (Err m) = m"

text \<open>An \<^verbatim>\<open>os.DirEntry\<close>, as far as \<^verbatim>\<open>listTargets\<close> reads it.\<close>

record DirEntry =
  Name :: string
  IsDir :: bool

text \<open>A configuration value as Viper holds it: what a flag, an environment variable or a
  scalar of the YAML file gives. (Lists, maps and floating-point numbers in the YAML file
  are outside this model.)\<close>

datatype val = VString string | VInt int | VBool bool

text \<open>How \<^verbatim>\<open>cmd.Run()\<close> ends: no error, an \<^verbatim>\<open>*exec.ExitError\<close> with the child's exit
  code, or any other error.\<close>

datatype run_result = RunOk | ExitError int | RunFailed error

text \<open>
  Everything the process reads from outside itself, and the library functions whose
  results the program only passes on:
  \<^item> \<^verbatim>\<open>os.UserHomeDir()\<close>, \<^verbatim>\<open>filepath.Join\<close>, \<^verbatim>\<open>os.ReadDir\<close> (entries and error),
    \<^verbatim>\<open>os.LookupEnv\<close>;
  \<^item> \<open>ReadConfigFile name type paths\<close>: Viper's search for the file \<open>name\<close> in
    \<open>paths\<close> and the YAML parser's result, keys in lower case;
  \<^item> \<open>ParseInt\<close>: what \<^verbatim>\<open>cast.ToInt\<close> makes of a string (0 when it is not a number);
  \<^item> \<^verbatim>\<open>exec.LookPath\<close> and the run of the child process.
\<close>

record extern =
  UserHomeDir :: "error + string"
  filepath_Join :: "string \<Rightarrow> string \<Rightarrow> string"
  ReadDir :: "string \<Rightarrow> DirEntry list \<times> error option"
  LookupEnv :: "string \<Rightarrow> string option"
  ReadConfigFile :: "string \<Rightarrow> string \<Rightarrow> string list \<Rightarrow> error + (string \<rightharpoonup> val)"
  ParseInt :: "string \<Rightarrow> int"
  LookPath :: "string \<Rightarrow> error + string"
  Run :: "string \<Rightarrow> string list \<Rightarrow> run_result"

subsection \<open>\<^verbatim>\<open>listTargets\<close>\<close>

text \<open>The loop over the directory entries, with \<^verbatim>\<open>out\<close> as the accumulator.\<close>

fun listTargets_loop :: "DirEntry list \<Rightarrow> string list \<Rightarrow> string list" where
  "listTargets_loop [] out = out"
| "listTargets_loop (e # es) out =
     (if IsDir e then listTargets_loop es out
      else
        let name = Name e;
            ext = ToLower (Ext name)
        in if ext = ''.yaml'' \<or> ext = ''.yml''
           then let base = TrimSuffix name ext in listTargets_loop es (out @ [base])
           else listTargets_loop es out)"

definition listTargets :: "extern \<Rightarrow> string \<Rightarrow> error + string list" where
  "listTargets x dir =
     (case ReadDir x dir of
        (entries, Some err) \<Rightarrow> Inl err
      | (entries, None) \<Rightarrow> Inr (sort_Strings (listTargets_loop entries [])))"

subsection \<open>The command line, as \<^verbatim>\<open>pflag.Parse()\<close> leaves it\<close>

text \<open>
  The input of the program is a command line that \<^verbatim>\<open>pflag.Parse()\<close> has accepted: for
  each flag, the value given on the command line, or \<open>None\<close> when the flag does not
  occur there, and the trailing arguments (\<^verbatim>\<open>pflag.Args()\<close>).
\<close>

record cmdline =
  opt_target :: "string option"
  opt_config :: "string option"
  opt_host :: "string option"
  opt_user :: "string option"
  opt_port :: "int option"
  opt_identity :: "string option"
  opt_list :: "bool option"
  opt_dry_run :: "bool option"
  opt_verbose :: "bool option"
  Args :: "string list"

text \<open>The flag variables after parsing: the value given, else the declared default.\<close>

definition flagTarget :: "cmdline \<Rightarrow> string" where
  "flagTarget cl = (case opt_target cl of Some s \<Rightarrow> s | None \<Rightarrow> [])"

definition flagConfigDir :: "cmdline \<Rightarrow> string" where
  "flagConfigDir cl = (case opt_config cl of Some s \<Rightarrow> s | None \<Rightarrow> ''hosts'')"

definition flagHost :: "cmdline \<Rightarrow> string" where
  "flagHost cl = (case opt_host cl of Some s \<Rightarrow> s | None \<Rightarrow> [])"

definition flagUser :: "cmdline \<Rightarrow> string" where
  "flagUser cl = (case opt_user cl of Some s \<Rightarrow> s | None \<Rightarrow> [])"

definition flagPort :: "cmdline \<Rightarrow> int" where
  "flagPort cl = (case opt_port cl of Some n \<Rightarrow> n | None \<Rightarrow> 22)"

definition flagIdentity :: "cmdline \<Rightarrow> string" where
  "flagIdentity cl = (case opt_identity cl of Some s \<Rightarrow> s | None \<Rightarrow> [])"

definition flagList :: "cmdline \<Rightarrow> bool" where
  "flagList cl = (case opt_list cl of Some b \<Rightarrow> b | None \<Rightarrow> False)"

definition flagDryRun :: "cmdline \<Rightarrow> bool" where
  "flagDryRun cl = (case opt_dry_run cl of Some b \<Rightarrow> b | None \<Rightarrow> False)"

definition flagVerbose :: "cmdline \<Rightarrow> bool" where
  "flagVerbose cl = (case opt_verbose cl of Some b \<Rightarrow> b | None \<Rightarrow> False)"

text \<open>A flag as Viper reads it: whether it was given on the command line, and its
  current value (the default when it was not).\<close>

record pflag =
  Changed :: bool
  Value :: val

definition CommandLine :: "cmdline \<Rightarrow> (string \<times> pflag) list" where
  "CommandLine cl =
     [(''target'', \<lparr>Changed = (opt_target cl \<noteq> None), Value = VString (flagTarget cl)\<rparr>),
      (''config'', \<lparr>Changed = (opt_config cl \<noteq> None), Value = VString (flagConfigDir cl)\<rparr>),
      (''host'', \<lparr>Changed = (opt_host cl \<noteq> None), Value = VString (flagHost cl)\<rparr>),
      (''user'', \<lparr>Changed = (opt_user cl \<noteq> None), Value = VString (flagUser cl)\<rparr>),
      (''port'', \<lparr>Changed = (opt_port cl \<noteq> None), Value = VInt (flagPort cl)\<rparr>),
      (''identity'', \<lparr>Changed = (opt_identity cl \<noteq> None), Value = VString (flagIdentity cl)\<rparr>),
      (''list'', \<lparr>Changed = (opt_list cl \<noteq> None), Value = VBool (flagList cl)\<rparr>),
      (''dry-run'', \<lparr>Changed = (opt_dry_run cl \<noteq> None), Value = VBool (flagDryRun cl)\<rparr>),
      (''verbose'', \<lparr>Changed = (opt_verbose cl \<noteq> None), Value = VBool (flagVerbose cl)\<rparr>)]"

subsection \<open>The Viper instance\<close>

text \<open>
  The part of Viper's state that the calls in \<^verbatim>\<open>main\<close> write and read, and the lookup
  \<^verbatim>\<open>find\<close> behind \<^verbatim>\<open>GetString\<close> and \<^verbatim>\<open>GetInt\<close>, in the library's order: a flag that was
  given, the environment (when \<^verbatim>\<open>AutomaticEnv\<close> is on; an empty variable counts as
  absent), the configuration file, the defaults, and last the default value of a bound
  flag.
\<close>

record viper =
  pflags :: "string \<rightharpoonup> pflag"
  envPrefix :: string
  envKeyReplacer :: "(char \<times> char) list option"
  automaticEnvApplied :: bool
  defaults :: "string \<rightharpoonup> val"
  config :: "string \<rightharpoonup> val"
  configName :: string
  configType :: string
  configPaths :: "string list"

definition viper_New :: viper where
  "viper_New =
     \<lparr>pflags = Map.empty, envPrefix = [], envKeyReplacer = None,
      automaticEnvApplied = False, defaults = Map.empty, config = Map.empty,
      configName = ''config'', configType = [], configPaths = []\<rparr>"

fun BindPFlags :: "viper \<Rightarrow> (string \<times> pflag) list \<Rightarrow> viper" where
  "BindPFlags v [] = v"
| "BindPFlags v ((name, f) # fs) =
     BindPFlags (v\<lparr>pflags := (pflags v)(ToLower name \<mapsto> f)\<rparr>) fs"

definition SetEnvPrefix :: "viper \<Rightarrow> string \<Rightarrow> viper" where
  "SetEnvPrefix v p = v\<lparr>envPrefix := p\<rparr>"

text \<open>\<^verbatim>\<open>strings.NewReplacer(old, new)\<close> for one-byte strings, and its \<^verbatim>\<open>Replace\<close>.\<close>

definition NewReplacer :: "char \<Rightarrow> char \<Rightarrow> (char \<times> char) list" where
  "NewReplacer old new = [(old, new)]"

definition Replace :: "(char \<times> char) list \<Rightarrow> string \<Rightarrow> string" where
  "Replace r s = map (\<lambda>c. case map_of r c of Some d \<Rightarrow> d | None \<Rightarrow> c) s"

definition SetEnvKeyReplacer :: "viper \<Rightarrow> (char \<times> char) list \<Rightarrow> viper" where
  "SetEnvKeyReplacer v r = v\<lparr>envKeyReplacer := Some r\<rparr>"

definition AutomaticEnv :: "viper \<Rightarrow> viper" where
  "AutomaticEnv v = v\<lparr>automaticEnvApplied := True\<rparr>"

definition SetDefault :: "viper \<Rightarrow> string \<Rightarrow> val \<Rightarrow> viper" where
  "SetDefault v key a = v\<lparr>defaults := (defaults v)(ToLower key \<mapsto> a)\<rparr>"

definition SetConfigName :: "viper \<Rightarrow> string \<Rightarrow> viper" where
  "SetConfigName v n = (if n \<noteq> [] then v\<lparr>configName := n\<rparr> else v)"

definition SetConfigType :: "viper \<Rightarrow> string \<Rightarrow> viper" where
  "SetConfigType v t = (if t \<noteq> [] then v\<lparr>configType := t\<rparr> else v)"

definition AddConfigPath :: "viper \<Rightarrow> string \<Rightarrow> viper" where
  "AddConfigPath v d =
     (if d \<noteq> [] \<and> d \<notin> set (configPaths v) then v\<lparr>configPaths := configPaths v @ [d]\<rparr> else v)"

definition ReadInConfig :: "extern \<Rightarrow> viper \<Rightarrow> error + viper" where
  "ReadInConfig x v =
     (case ReadConfigFile x (configName v) (configType v) (configPaths v) of
        Inl err \<Rightarrow> Inl err
      | Inr m \<Rightarrow> Inr (v\<lparr>config := m\<rparr>))"

definition mergeWithEnvPrefix :: "viper \<Rightarrow> string \<Rightarrow> string" where
  "mergeWithEnvPrefix v k =
     (if envPrefix v \<noteq> [] then ToUpper (envPrefix v @ ''_'' @ k) else ToUpper k)"

definition getEnv :: "extern \<Rightarrow> viper \<Rightarrow> string \<Rightarrow> string option" where
  "getEnv x v k =
     (let k' = (case envKeyReplacer v of Some r \<Rightarrow> Replace r k | None \<Rightarrow> k)
      in case LookupEnv x k' of
           Some s \<Rightarrow> if s \<noteq> [] then Some s else None
         | None \<Rightarrow> None)"

definition viper_find :: "extern \<Rightarrow> viper \<Rightarrow> string \<Rightarrow> val option" where
  "viper_find x v lcaseKey =
     (case (case pflags v lcaseKey of
              Some f \<Rightarrow> if Changed f then Some (Value f) else None
            | None \<Rightarrow> None) of
        Some a \<Rightarrow> Some a
      | None \<Rightarrow>
     (case (if automaticEnvApplied v
            then map_option VString (getEnv x v (mergeWithEnvPrefix v lcaseKey))
            else None) of
        Some a \<Rightarrow> Some a
      | None \<Rightarrow>
     (case config v lcaseKey of
        Some a \<Rightarrow> Some a
      | None \<Rightarrow>
     (case defaults v lcaseKey of
        Some a \<Rightarrow> Some a
      | None \<Rightarrow> map_option Value (pflags v lcaseKey)))))"

text \<open>\<^verbatim>\<open>cast.ToString\<close> and \<^verbatim>\<open>cast.ToInt\<close>.\<close>

fun cast_ToString :: "val \<Rightarrow> string" where
  "cast_ToString (VString s) = s"
| "cast_ToString (VInt i) = Sprintf_d i"
| "cast_ToString (VBool b) = (if b then ''true'' else ''false'')"

fun cast_ToInt :: "extern \<Rightarrow> val \<Rightarrow> int" where
  "cast_ToInt x (VString s) = ParseInt x s"
| "cast_ToInt x (VInt i) = i"
| "cast_ToInt x (VBool b) = (if b then 1 else 0)"

definition GetString :: "extern \<Rightarrow> viper \<Rightarrow> string \<Rightarrow> string" where
  "GetString x v key =
     (case viper_find x v (ToLower key) of None \<Rightarrow> [] | Some a \<Rightarrow> cast_ToString a)"

definition GetInt :: "extern \<Rightarrow> viper \<Rightarrow> string \<Rightarrow> int" where
  "GetInt x v key =
     (case viper_find x v (ToLower key) of None \<Rightarrow> 0 | Some a \<Rightarrow> cast_ToInt x a)"

subsection \<open>\<^verbatim>\<open>main\<close>\<close>

text \<open>
  What a run of the process leaves behind: the chunks written to standard output and
  to standard error by the process itself, in order, and its exit status. (The child's
  own output goes to the same streams and is not recorded.)
\<close>

record outcome =
  stdout :: "string list"
  stderr :: "string list"
  exitCode :: int

definition Version :: string where
  "Version = ''1.0.1''"

text \<open>\<^verbatim>\<open>fmt.Println\<close> of one string.\<close>

definition Println :: "string \<Rightarrow> string" where
  "Println s = s @ [newline]"

text \<open>\<^verbatim>\<open>fatal\<close>, applied to the formatted message: one line on standard error, and
  \<^verbatim>\<open>os.Exit(1)\<close>. The first argument is what has been printed so far.\<close>

definition fatal :: "string list \<Rightarrow> string \<Rightarrow> outcome" where
  "fatal out msg = \<lparr>stdout = out, stderr = [''error: '' @ msg @ [newline]], exitCode = 1\<rparr>"

text \<open>Lines 63 to 71: the Viper instance, bound to the flags and the environment.
  (\<^verbatim>\<open>BindPFlags\<close> returns no error for the flag set of the command line, so the
  \<^verbatim>\<open>must\<close> around it passes.)\<close>

definition main_setup :: "cmdline \<Rightarrow> viper" where
  "main_setup cl =
     (let v0 = viper_New;
          v1 = BindPFlags v0 (CommandLine cl);
          v2 = SetEnvPrefix v1 ''GSSH'';
          v3 = SetEnvKeyReplacer v2 (NewReplacer CHR ''-'' CHR ''_'');
          v4 = AutomaticEnv v3;
          v5 = SetDefault v4 ''port'' (VInt 22);
          v6 = SetDefault v5 ''config'' (VString (flagConfigDir cl))
      in v6)"

text \<open>Lines 82 to 97: the loop of the list mode over the candidate directories, with the
  flag \<^verbatim>\<open>found\<close> and the output so far, and the end of the list mode.\<close>

definition target_line :: "string \<Rightarrow> string \<Rightarrow> string" where
  "target_line t dir = t @ '' ('' @ dir @ '')'' @ [newline]"

fun main_list_loop :: "extern \<Rightarrow> string list \<Rightarrow> bool \<Rightarrow> string list \<Rightarrow> bool \<times> string list" where
  "main_list_loop x [] found out = (found, out)"
| "main_list_loop x (dir # dirs) found out =
     (case listTargets x dir of
        Inr targets \<Rightarrow>
          if length targets > 0
          then main_list_loop x dirs True (out @ map (\<lambda>t. target_line t dir) targets)
          else main_list_loop x dirs found out
      | Inl err \<Rightarrow> main_list_loop x dirs found out)"

definition main_list :: "extern \<Rightarrow> string list \<Rightarrow> string list \<Rightarrow> outcome" where
  "main_list x configDirs out =
     (case main_list_loop x configDirs False out of
        (found, out') \<Rightarrow>
          \<lparr>stdout = (if \<not> found then out' @ [Println ''No targets found.''] else out'),
           stderr = [], exitCode = 0\<rparr>)"

text \<open>Lines 99 to 109: the profile file is read when a target was given. \<open>Inl\<close> carries
  the message handed to \<^verbatim>\<open>fatal\<close>.\<close>

definition main_load :: "extern \<Rightarrow> viper \<Rightarrow> string \<Rightarrow> string list \<Rightarrow> string + viper" where
  "main_load x v target configDirs =
     (if target \<noteq> []
      then
        let v1 = SetConfigName v target;
            v2 = SetConfigType v1 ''yaml'';
            v3 = foldl AddConfigPath v2 configDirs
        in case ReadInConfig x v3 of
             Inl err \<Rightarrow>
               Inl (''failed to read config for target '' @ [squote] @ target @ [squote]
                    @ '': '' @ Error err)
           | Inr v4 \<Rightarrow> Inr v4
      else Inr v)"

text \<open>Lines 112 to 117: the merged profile.\<close>

definition main_merge :: "extern \<Rightarrow> viper \<Rightarrow> HostConfig" where
  "main_merge x v =
     \<lparr>Host = GetString x v ''host'',
      User = GetString x v ''user'',
      Port = GetInt x v ''port'',
      Identity = GetString x v ''identity''\<rparr>"

text \<open>Lines 119 to 130: the validation after the merge.\<close>

definition host_required :: string where
  "host_required =
     ''host is required. Set --host, GSSH_HOST, or provide a target via --target with host in YAML''"

definition main_validate :: "HostConfig \<Rightarrow> string + HostConfig" where
  "main_validate cfg =
     (if Host cfg = [] then Inl host_required
      else
        let cfg1 = (if User cfg = [] then cfg else cfg);
            cfg2 = (if Port cfg1 \<le> 0 then cfg1\<lparr>Port := 22\<rparr> else cfg1)
        in Inr cfg2)"

text \<open>\<^verbatim>\<open>os.Exit(code)\<close>: the status with which the process ends is the low eight bits of
  \<^verbatim>\<open>code\<close>, so the code -1 that \<^verbatim>\<open>ExitCode()\<close> gives for a child ended by a signal
  becomes the status 255.\<close>

definition os_Exit :: "int \<Rightarrow> int" where
  "os_Exit code = code mod 256"

text \<open>Lines 132 to 164: the ssh arguments, the echo of the command, and the child.\<close>

definition main_invoke :: "cmdline \<Rightarrow> extern \<Rightarrow> HostConfig \<Rightarrow> string list \<Rightarrow> outcome" where
  "main_invoke cl x cfg out =
     (let remoteCmd = Args cl;
          sshArgs = buildSSHArgs cfg remoteCmd;
          out1 = (if flagDryRun cl \<or> flagVerbose cl
                  then out @ [Println (renderCommand ''ssh'' sshArgs)] else out)
      in if flagDryRun cl then \<lparr>stdout = out1, stderr = [], exitCode = 0\<rparr>
         else
           case LookPath x ''ssh'' of
             Inl err \<Rightarrow>
               fatal out1
                 (''ssh client not found in PATH. Install OpenSSH client and ensure ''
                  @ [squote] @ ''ssh'' @ [squote] @ '' is available: '' @ Error err)
           | Inr path \<Rightarrow>
               (case Run x ''ssh'' sshArgs of
                  RunOk \<Rightarrow> \<lparr>stdout = out1, stderr = [], exitCode = 0\<rparr>
                | ExitError code \<Rightarrow> \<lparr>stdout = out1, stderr = [], exitCode = os_Exit code\<rparr>
                | RunFailed err \<Rightarrow> fatal out1 (''ssh execution failed: '' @ Error err)))"

definition main :: "cmdline \<Rightarrow> extern \<Rightarrow> outcome" where
  "main cl x =
     (let out = [Println (''gssh wrapper -- version '' @ Version)];
          v = main_setup cl
      in case UserHomeDir x of
           Inl err \<Rightarrow> fatal out (Error err)
         | Inr homeDir \<Rightarrow>
             let configDirs = [flagConfigDir cl, filepath_Join x homeDir ''hosts'']
             in if flagList cl then main_list x configDirs out
                else
                  case main_load x v (flagTarget cl) configDirs of
                    Inl msg \<Rightarrow> fatal out msg
                  | Inr v' \<Rightarrow>
                      let cfg = main_merge x v'
                      in case main_validate cfg of
                           Inl msg \<Rightarrow> fatal out msg
                         | Inr cfg' \<Rightarrow> main_invoke cl x cfg' out)"

subsection \<open>Reference definitions for the statements\<close>

text \<open>Reading a decimal numeral: an optional minus sign, then one or more digits, the
  most significant first. \<open>magnitude\<close> takes the digits left to read and the value of
  those already read.\<close>

definition digit_value :: "char \<Rightarrow> nat option" where
  "digit_value c = map_of (zip ''0123456789'' [0, 1, 2, 3, 4, 5, 6, 7, 8, 9]) c"

fun magnitude :: "string \<Rightarrow> nat \<Rightarrow> nat option" where
  "magnitude [] acc = Some acc"
| "magnitude (c # cs) acc =
     (case digit_value c of None \<Rightarrow> None | Some d \<Rightarrow> magnitude cs (10 * acc + d))"

definition decimal_reading :: "string \<Rightarrow> int option" where
  "decimal_reading s =
     (case s of
        [] \<Rightarrow> None
      | c # cs \<Rightarrow>
          if c = CHR ''-''
          then (if cs = [] then None else map_option (\<lambda>n. - int n) (magnitude cs 0))
          else map_option int (magnitude s 0))"

text \<open>The renderer, as the specification words it: one byte of a quoted argument, the
  test for the four bytes that call for quoting, and one rendered argument.\<close>

definition escape_byte :: "char \<Rightarrow> string" where
  "escape_byte c =
     (if c = backslash then [backslash, backslash]
      else if c = dquote then [backslash, dquote]
      else [c])"

definition has_quoting_byte :: "string \<Rightarrow> bool" where
  "has_quoting_byte a = (\<exists>c \<in> set a. c = CHR '' '' \<or> c = tab \<or> c = squote \<or> c = dquote)"

definition rendered_arg :: "string \<Rightarrow> string" where
  "rendered_arg a =
     (if has_quoting_byte a then [dquote] @ concat (map escape_byte a) @ [dquote] else a)"

text \<open>What \<^verbatim>\<open>listTargets\<close> keeps of a directory entry, and the name it gives it.\<close>

definition is_profile :: "DirEntry \<Rightarrow> bool" where
  "is_profile e =
     (\<not> IsDir e \<and> (ToLower (Ext (Name e)) = ''.yaml'' \<or> ToLower (Ext (Name e)) = ''.yml''))"

definition target_name :: "DirEntry \<Rightarrow> string" where
  "target_name e = TrimSuffix (Name e) (ToLower (Ext (Name e)))"

text \<open>The lines that the list mode prints for one candidate directory.\<close>

definition listed_lines :: "extern \<Rightarrow> string \<Rightarrow> string list" where
  "listed_lines x dir =
     (case listTargets x dir of Inl err \<Rightarrow> [] | Inr ts \<Rightarrow> map (\<lambda>t. target_line t dir) ts)"

text \<open>A concrete outside world and an empty command line, for the examples: the
  directory \<^verbatim>\<open>hosts\<close> holds the given entries and no other directory exists; the
  profile \<^verbatim>\<open>ipa\<close> is found in \<^verbatim>\<open>hosts\<close>.\<close>

definition demo_extern :: "DirEntry list \<Rightarrow> (string \<times> string) list \<Rightarrow> extern" where
  "demo_extern entries env =
     \<lparr>UserHomeDir = Inr ''/home/u'',
      filepath_Join = (\<lambda>a b. a @ ''/'' @ b),
      ReadDir = (\<lambda>d. if d = ''hosts'' then (entries, None)
                       else ([], Some (Err ''no such file or directory''))),
      LookupEnv = map_of env,
      ReadConfigFile = (\<lambda>n t ps.
         if n = ''ipa'' \<and> t = ''yaml'' \<and> ''hosts'' \<in> set ps
         then Inr (map_of [(''host'', VString ''ipa.diydev.io''), (''port'', VInt 25022)])
         else Inl (Err ''Config File Not Found'')),
      ParseInt = (\<lambda>s. if s = ''2200'' then 2200 else 0),
      LookPath = (\<lambda>_. Inr ''/usr/bin/ssh''),
      Run = (\<lambda>_ _. RunOk)\<rparr>"

definition no_flags :: cmdline where
  "no_flags =
     \<lparr>opt_target = None, opt_config = None, opt_host = None, opt_user = None,
      opt_port = None, opt_identity = None, opt_list = None, opt_dry_run = None,
      opt_verbose = None, Args = []\<rparr>"

text \<open>
  The resolver, as the specification words it. \<open>env_name\<close> is the name of the
  environment variable of a flag: the prefix, then the flag name in upper case with
  \<^verbatim>\<open>-\<close> replaced by \<^verbatim>\<open>_\<close>. \<open>env_value\<close> is the value of a variable that is set and
  not empty. \<open>layered\<close> takes the value of the first source that sets a field: flag,
  environment, profile file, default. \<open>search_path\<close> is the list of the candidate
  directories without the empty and the repeated ones. \<open>layered_profile\<close> is the
  profile that results, field by field.
\<close>

definition env_name :: "string \<Rightarrow> string" where
  "env_name key = ''GSSH_'' @ map (\<lambda>c. if c = CHR ''-'' then CHR ''_'' else c) (ToUpper key)"

definition env_value :: "extern \<Rightarrow> string \<Rightarrow> string option" where
  "env_value x name =
     (case LookupEnv x name of Some s \<Rightarrow> (if s = [] then None else Some s) | None \<Rightarrow> None)"

definition layered :: "'a option \<Rightarrow> 'a option \<Rightarrow> 'a option \<Rightarrow> 'a \<Rightarrow> 'a" where
  "layered flag env file dflt =
     (case flag of
        Some a \<Rightarrow> a
      | None \<Rightarrow> (case env of
          Some a \<Rightarrow> a
        | None \<Rightarrow> (case file of Some a \<Rightarrow> a | None \<Rightarrow> dflt)))"



definition layered_profile :: "cmdline \<Rightarrow> extern \<Rightarrow> (string \<rightharpoonup> val) \<Rightarrow> HostConfig" where
  "layered_profile cl x file =
     \<lparr>Host = layered (opt_host cl) (env_value x (env_name ''host''))
               (map_option cast_ToString (file ''host'')) [],
      User = layered (opt_user cl) (env_value x (env_name ''user''))
               (map_option cast_ToString (file ''user'')) [],
      Port = layered (opt_port cl) (map_option (ParseInt x) (env_value x (env_name ''port'')))
               (map_option (cast_ToInt x) (file ''port'')) 22,
      Identity = layered (opt_identity cl) (env_value x (env_name ''identity''))
               (map_option cast_ToString (file ''identity'')) []\<rparr>"

section \<open>Properties\<close>

subsection \<open>Decimal rendering\<close>

lemma digit_value_digit: "d < 10 \<Longrightarrow> digit_value (digit d) = Some d"
proof -
  assume "d < 10"
  then consider "d = 0" | "d = 1" | "d = 2" | "d = 3" | "d = 4"
    | "d = 5" | "d = 6" | "d = 7" | "d = 8" | "d = 9"
    by atomize_elim arith
  then show ?thesis
    by cases (simp_all add: digit_value_def digit_def)
qed

lemma digit_not_minus: "d < 10 \<Longrightarrow> digit d \<noteq> CHR ''-''"
proof -
  assume "d < 10"
  then consider "d = 0" | "d = 1" | "d = 2" | "d = 3" | "d = 4"
    | "d = 5" | "d = 6" | "d = 7" | "d = 8" | "d = 9"
    by atomize_elim arith
  then show ?thesis
    by cases (simp_all add: digit_def)
qed

lemma magnitude_append:
  "magnitude (xs @ ys) acc =
     (case magnitude xs acc of None \<Rightarrow> None | Some a \<Rightarrow> magnitude ys a)"
  by (induction xs arbitrary: acc) (auto split: option.splits)

lemma magnitude_fmtUint: "magnitude (fmtUint n) 0 = Some n"
proof (induction n rule: fmtUint.induct)
  case (1 n)
  show ?case
  proof (cases "n < 10")
    case True
    then show ?thesis
      by (subst fmtUint.simps) (simp add: digit_value_digit)
  next
    case False
    then have "magnitude (fmtUint (n div 10)) 0 = Some (n div 10)"
      using "1.IH" by simp
    then show ?thesis
      using False
      by (subst fmtUint.simps) (simp add: magnitude_append digit_value_digit)
  qed
qed

lemma fmtUint_not_empty: "fmtUint n \<noteq> []"
  by (subst fmtUint.simps) simp

lemma hd_fmtUint: "hd (fmtUint n) \<noteq> CHR ''-''"
proof (induction n rule: fmtUint.induct)
  case (1 n)
  show ?case
  proof (cases "n < 10")
    case True
    then show ?thesis
      by (subst fmtUint.simps) (simp add: digit_not_minus)
  next
    case False
    then show ?thesis
      using "1.IH" fmtUint_not_empty [of "n div 10"]
      by (subst fmtUint.simps) simp
  qed
qed

lemma decimal_reading_Sprintf_d: "decimal_reading (Sprintf_d i) = Some i"
proof (cases "i < 0")
  case True
  then show ?thesis
    by (simp add: decimal_reading_def Sprintf_d_def fmtUint_not_empty magnitude_fmtUint)
next
  case False
  obtain c cs where eq: "fmtUint (nat i) = c # cs"
    using fmtUint_not_empty [of "nat i"] by (cases "fmtUint (nat i)") auto
  have "c \<noteq> CHR ''-''"
    using hd_fmtUint [of "nat i"] eq by simp
  moreover have "magnitude (c # cs) 0 = Some (nat i)"
    using magnitude_fmtUint [of "nat i"] eq by simp
  ultimately show ?thesis
    using False eq by (simp add: decimal_reading_def Sprintf_d_def del: magnitude.simps)
qed

subsection \<open>The Argument Builder\<close>

text \<open>
  Claim C1. For every host profile and every sequence of remote command tokens,
  \<^verbatim>\<open>buildSSHArgs\<close> returns exactly: \<^verbatim>\<open>-i\<close> and the identity path if and only if the
  identity path is not empty; then \<^verbatim>\<open>-p\<close> and the port in decimal if and only if the
  port is neither 22 nor 0; then the one destination argument, \<^verbatim>\<open>user@host\<close> when the
  user is not empty and \<^verbatim>\<open>host\<close> otherwise; then the remote command tokens, unchanged
  and in order. The rendering of the port reads back, as a decimal numeral, as the port.
\<close>

theorem buildSSHArgs_order:
  "buildSSHArgs cfg remoteCmd =
     (if Identity cfg \<noteq> [] then [''-i'', Identity cfg] else []) @
     (if Port cfg \<noteq> 22 \<and> Port cfg \<noteq> 0 then [''-p'', Sprintf_d (Port cfg)] else []) @
     [if User cfg \<noteq> [] then User cfg @ ''@'' @ Host cfg else Host cfg] @
     remoteCmd
   \<and> decimal_reading (Sprintf_d (Port cfg)) = Some (Port cfg)"
  by (simp add: buildSSHArgs_def Let_def Sprintf_s_at_s_def decimal_reading_Sprintf_d)

theorem buildSSHArgs_order_witness:
  "buildSSHArgs \<lparr>Host = ''example.com'', User = ''alice'', Port = 2222, Identity = ''/path/to/key''\<rparr>
     [''ls'', ''-l'']
   = [''-i'', ''/path/to/key'', ''-p'', ''2222'', ''alice@example.com'', ''ls'', ''-l'']
   \<and> buildSSHArgs \<lparr>Host = ''host'', User = [], Port = 22, Identity = []\<rparr> [] = [''host'']"
proof -
  have d: "Sprintf_d 2222 = ''2222''"
    by (simp add: Sprintf_d_def fmtUint.simps digit_def)
  show ?thesis
    using buildSSHArgs_order [of "\<lparr>Host = ''example.com'', User = ''alice'', Port = 2222, Identity = ''/path/to/key''\<rparr>" "[''ls'', ''-l'']"]
      buildSSHArgs_order [of "\<lparr>Host = ''host'', User = [], Port = 22, Identity = []\<rparr>" "[]"]
    by (simp add: d)
qed

subsection \<open>The Command Renderer\<close>

lemma ReplaceAll_append:
  "ReplaceAll (xs @ ys) old new = ReplaceAll xs old new @ ReplaceAll ys old new"
  by (induction xs) simp_all

lemma quote_body:
  "ReplaceAll (ReplaceAll s backslash [backslash, backslash]) dquote [backslash, dquote]
     = concat (map escape_byte s)"
  by (induction s) (simp_all add: escape_byte_def)

lemma quote_escape: "quote s = [dquote] @ concat (map escape_byte s) @ [dquote]"
  by (simp add: quote_def Let_def quote_body)

lemma needsQuoting_iff: "needsQuoting a \<longleftrightarrow> has_quoting_byte a"
  by (auto simp: needsQuoting_def ContainsAny_def has_quoting_byte_def list_ex_iff)

lemma renderCommand_loop_map:
  "renderCommand_loop parts args =
     parts @ map (\<lambda>a. if needsQuoting a then quote a else a) args"
  by (induction args arbitrary: parts) simp_all

lemma Join_Cons: "Join (x # xs) sep = x @ concat (map (\<lambda>y. sep @ y) xs)"
  by (induction xs arbitrary: x) simp_all

lemma renderCommand_concat:
  "renderCommand cmd args =
     cmd @ concat (map (\<lambda>a. '' '' @ (if needsQuoting a then quote a else a)) args)"
  by (simp add: renderCommand_def renderCommand_loop_map Join_Cons comp_def)

text \<open>
  Claim C4. For every command name and argument list, \<^verbatim>\<open>renderCommand\<close> returns the
  command name followed by each argument, each preceded by one space, where an argument
  is put between double quotes, with every backslash doubled and every double quote
  preceded by a backslash, if and only if it contains a space, a tab, a single quote or
  a double quote, and is otherwise unchanged. In particular \<^verbatim>\<open>quote\<close> turns \<^verbatim>\<open>a"b\<close>
  into \<^verbatim>\<open>"a\"b"\<close> and \<^verbatim>\<open>a\b\<close> into \<^verbatim>\<open>"a\\b"\<close>.
\<close>

theorem renderCommand_quoting:
  "renderCommand cmd args = cmd @ concat (map (\<lambda>a. '' '' @ rendered_arg a) args)
   \<and> quote [CHR ''a'', dquote, CHR ''b''] = [dquote, CHR ''a'', backslash, dquote, CHR ''b'', dquote]
   \<and> quote [CHR ''a'', backslash, CHR ''b'']
       = [dquote, CHR ''a'', backslash, backslash, CHR ''b'', dquote]"
proof -
  have "(\<lambda>a. '' '' @ (if needsQuoting a then quote a else a)) = (\<lambda>a. '' '' @ rendered_arg a)"
    by (rule ext) (simp add: rendered_arg_def needsQuoting_iff quote_escape)
  then have "renderCommand cmd args = cmd @ concat (map (\<lambda>a. '' '' @ rendered_arg a) args)"
    by (simp only: renderCommand_concat)
  moreover have "quote [CHR ''a'', dquote, CHR ''b'']
      = [dquote, CHR ''a'', backslash, dquote, CHR ''b'', dquote]"
    by (simp add: quote_def)
  moreover have "quote [CHR ''a'', backslash, CHR ''b'']
      = [dquote, CHR ''a'', backslash, backslash, CHR ''b'', dquote]"
    by (simp add: quote_def)
  ultimately show ?thesis by blast
qed

theorem renderCommand_quoting_witness:
  "renderCommand ''ssh'' [''-i'', ''/path/key'', ''user@host'', ''echo'', ''hello world'',
       [CHR ''a'', backslash, dquote]]
     = ''ssh -i /path/key user@host echo '' @ [dquote] @ ''hello world'' @ [dquote]
       @ '' '' @ [dquote, CHR ''a'', backslash, backslash, backslash, dquote, dquote]"
  using renderCommand_quoting [of "''ssh''" "[''-i'', ''/path/key'', ''user@host'', ''echo'', ''hello world'',
       [CHR ''a'', backslash, dquote]]"]
  by (simp add: rendered_arg_def has_quoting_byte_def escape_byte_def)

text \<open>
  Claim C9. The test for quoting looks at four bytes only: space, tab, single quote and
  double quote. An argument with none of them, whatever else it contains (a dollar sign,
  a backquote, a semicolon, a star, a backslash), needs no quoting and stands in the
  output as it is, backslashes not doubled, wherever it occurs in the argument list.
\<close>

theorem renderCommand_unquoted:
  "set a \<inter> {CHR '' '', tab, squote, dquote} = {} \<Longrightarrow>
     \<not> needsQuoting a \<and>
     renderCommand cmd (before @ [a] @ after)
       = renderCommand cmd before @ '' '' @ a
         @ concat (map (\<lambda>b. '' '' @ (if needsQuoting b then quote b else b)) after)"
proof -
  assume disj: "set a \<inter> {CHR '' '', tab, squote, dquote} = {}"
  then have nq: "\<not> needsQuoting a"
    by (auto simp: needsQuoting_iff has_quoting_byte_def)
  then show ?thesis
    by (simp add: renderCommand_concat)
qed

theorem renderCommand_unquoted_witness:
  "renderCommand ''ssh'' [''h'', ''$HOME;*`id`'' @ [backslash] @ ''n'', ''a b'']
     = ''ssh h $HOME;*`id`'' @ [backslash] @ ''n '' @ [dquote] @ ''a b'' @ [dquote]"
proof -
  have "set (''$HOME;*`id`'' @ [backslash] @ ''n'') \<inter> {CHR '' '', tab, squote, dquote} = {}"
    by simp
  from renderCommand_unquoted [OF this, of "''ssh''" "[''h'']" "[''a b'']"]
  show ?thesis
    by (simp add: renderCommand_concat needsQuoting_def ContainsAny_def quote_def)
qed

subsection \<open>The builder and a negative port\<close>



subsection \<open>The Target Lister\<close>

lemma listTargets_loop_filter:
  "listTargets_loop es out = out @ map target_name (filter is_profile es)"
  by (induction es arbitrary: out) (simp_all add: is_profile_def target_name_def Let_def)

lemma listTargets_read:
  "ReadDir x dir = (entries, None) \<Longrightarrow>
     listTargets x dir = Inr (sort (map target_name (filter is_profile entries)))"
  by (simp add: listTargets_def sort_Strings_def listTargets_loop_filter)

lemma listTargets_failed:
  "ReadDir x dir = (entries, Some err) \<Longrightarrow> listTargets x dir = Inl err"
  by (simp add: listTargets_def)

lemma ToLower_yaml: "ToLower ''.yaml'' = ''.yaml''" "ToLower ''.yml'' = ''.yml''"
  by (simp_all add: ToLower_def toLower_byte_def upper_letters_def lower_letters_def)

lemma Ext_dotfile: "Ext ''.yaml'' = ''.yaml''" "Ext ''.yml'' = ''.yml''"
  by (simp_all add: Ext_def)

lemma target_name_dotfile:
  "Name e = ''.yaml'' \<or> Name e = ''.yml'' \<Longrightarrow> target_name e = []"
  by (auto simp: target_name_def Ext_dotfile ToLower_yaml TrimSuffix_def HasSuffix_def)

lemma is_profile_dotfile:
  "\<not> IsDir e \<Longrightarrow> Name e = ''.yaml'' \<or> Name e = ''.yml'' \<Longrightarrow> is_profile e"
  by (auto simp: is_profile_def Ext_dotfile ToLower_yaml)

lemma hd_sort_Nil: "[] \<in> set (ts :: string list) \<Longrightarrow> hd (sort ts) = []"
proof -
  assume mem: "[] \<in> set ts"
  have same: "set (sort ts) = set ts"
    by simp
  have ne: "sort ts \<noteq> []"
  proof
    assume "sort ts = []"
    then have "set (sort ts) = {}" by simp
    then show False using mem same by simp
  qed
  then obtain y ys where eq: "sort ts = y # ys"
    by (cases "sort ts") auto
  have "sorted (y # ys)"
    using sorted_sort [of ts] eq by simp
  moreover have "[] \<in> set (y # ys)"
    using mem same eq by simp
  ultimately have "y \<le> []"
    by auto
  then have "y = []"
    by simp
  then show ?thesis
    using eq by simp
qed

text \<open>
  Claim C10. When the directory can be read and holds a regular file whose whole name is
  \<^verbatim>\<open>.yaml\<close> or \<^verbatim>\<open>.yml\<close>, \<^verbatim>\<open>listTargets\<close> returns a list that contains the empty
  string (stripping the extension leaves nothing of the name); it is the first element,
  the list being sorted.
\<close>

theorem listTargets_dotfile:
  "ReadDir x dir = (entries, None) \<Longrightarrow> e \<in> set entries \<Longrightarrow> \<not> IsDir e \<Longrightarrow>
     Name e = ''.yaml'' \<or> Name e = ''.yml'' \<Longrightarrow>
     \<exists>ts. listTargets x dir = Inr ts \<and> [] \<in> set ts \<and> hd ts = []"
proof -
  assume rd: "ReadDir x dir = (entries, None)" and mem: "e \<in> set entries"
    and reg: "\<not> IsDir e" and name: "Name e = ''.yaml'' \<or> Name e = ''.yml''"
  let ?names = "map target_name (filter is_profile entries)"
  have "target_name e \<in> set ?names"
    using mem is_profile_dotfile [OF reg name] by simp
  then have "[] \<in> set ?names"
    using target_name_dotfile [OF name] by simp
  then have "[] \<in> set (sort ?names) \<and> hd (sort ?names) = []"
    using hd_sort_Nil [of ?names] by simp
  then show ?thesis
    using listTargets_read [OF rd] by simp
qed

theorem listTargets_dotfile_witness:
  "listTargets (demo_extern [\<lparr>Name = ''web.yml'', IsDir = False\<rparr>, \<lparr>Name = ''.yaml'', IsDir = False\<rparr>] [])
     ''hosts'' = Inr [[], ''web'']"
proof -
  let ?es = "[\<lparr>Name = ''web.yml'', IsDir = False\<rparr>, \<lparr>Name = ''.yaml'', IsDir = False\<rparr>]"
  have rd: "ReadDir (demo_extern ?es []) ''hosts'' = (?es, None)"
    by (simp add: demo_extern_def)
  have mem: "\<lparr>Name = ''.yaml'', IsDir = False\<rparr> \<in> set ?es" by simp
  have reg: "\<not> IsDir \<lparr>Name = ''.yaml'', IsDir = False\<rparr>" by simp
  have name: "Name \<lparr>Name = ''.yaml'', IsDir = False\<rparr> = ''.yaml''
      \<or> Name \<lparr>Name = ''.yaml'', IsDir = False\<rparr> = ''.yml''" by simp
  from listTargets_dotfile [OF rd mem reg name]
  obtain ts where "listTargets (demo_extern ?es []) ''hosts'' = Inr ts" by blast
  then show ?thesis
    by (simp add: listTargets_read [OF rd] is_profile_def target_name_def Ext_def ToLower_def
        toLower_byte_def upper_letters_def lower_letters_def TrimSuffix_def HasSuffix_def)
qed

text \<open>An extension is a suffix of the name, so an extension that is already in lower case
  is stripped: the name is the target followed by the extension.\<close>

lemma Ext_scan_suffix:
  "Ext_scan xs passed \<noteq> [] \<Longrightarrow>
     \<exists>ys zs. xs = ys @ zs \<and> Ext_scan xs passed = rev ys @ passed"
proof (induction xs arbitrary: passed)
  case Nil
  then show ?case by simp
next
  case (Cons c rest)
  show ?case
  proof (cases "c = CHR ''/''")
    case True
    then show ?thesis using Cons.prems by simp
  next
    case sep: False
    show ?thesis
    proof (cases "c = CHR ''.''")
      case True
      then have "c # rest = [c] @ rest \<and> Ext_scan (c # rest) passed = rev [c] @ passed"
        by simp
      then show ?thesis by blast
    next
      case False
      then have "Ext_scan rest (c # passed) \<noteq> []"
        using Cons.prems sep by simp
      from Cons.IH [OF this] obtain ys zs
        where "rest = ys @ zs" and "Ext_scan rest (c # passed) = rev ys @ c # passed"
        by blast
      then have "c # rest = (c # ys) @ zs
          \<and> Ext_scan (c # rest) passed = rev (c # ys) @ passed"
        using sep False by simp
      then show ?thesis by blast
    qed
  qed
qed

lemma Ext_suffix: "\<exists>base. path = base @ Ext path"
proof (cases "Ext path = []")
  case True
  then show ?thesis by simp
next
  case False
  then have "Ext_scan (rev path) [] \<noteq> []"
    by (simp add: Ext_def)
  from Ext_scan_suffix [OF this] obtain ys zs
    where "rev path = ys @ zs" and "Ext path = rev ys"
    by (auto simp: Ext_def)
  then have "path = rev zs @ Ext path"
    by (metis rev_append rev_rev_ident)
  then show ?thesis by blast
qed

lemma TrimSuffix_append: "TrimSuffix (base @ ext) ext = base"
  by (simp add: TrimSuffix_def HasSuffix_def)

lemma target_name_lower_case:
  "ToLower (Ext (Name e)) = Ext (Name e) \<Longrightarrow> target_name e @ Ext (Name e) = Name e"
proof -
  assume low: "ToLower (Ext (Name e)) = Ext (Name e)"
  obtain base where eq: "Name e = base @ Ext (Name e)"
    using Ext_suffix by blast
  have "TrimSuffix (base @ Ext (Name e)) (Ext (Name e)) = base"
    by (rule TrimSuffix_append)
  then have "target_name e = base"
    using low eq by (simp add: target_name_def)
  then show ?thesis
    using eq by simp
qed

text \<open>
  Claim C5, at a directory whose only entry is the regular file \<^verbatim>\<open>FOO.YAML\<close>: the
  extension matches case-insensitively, so the entry is kept, but \<^verbatim>\<open>TrimSuffix\<close> is given
  the lower-cased extension \<^verbatim>\<open>.yaml\<close>, which is not a suffix of the name, and the name is
  returned with its extension.
\<close>

theorem listTargets_upper_case_extension:
  "ReadDir x dir = ([\<lparr>Name = ''FOO.YAML'', IsDir = False\<rparr>], None) \<Longrightarrow>
     listTargets x dir = Inr [''FOO.YAML'']"
  by (simp add: listTargets_read is_profile_def target_name_def Ext_def ToLower_def
        toLower_byte_def upper_letters_def lower_letters_def TrimSuffix_def HasSuffix_def)

theorem listTargets_upper_case_extension_witness:
  "listTargets (demo_extern [\<lparr>Name = ''FOO.YAML'', IsDir = False\<rparr>] []) ''hosts''
     = Inr [''FOO.YAML'']"
proof -
  have "ReadDir (demo_extern [\<lparr>Name = ''FOO.YAML'', IsDir = False\<rparr>] []) ''hosts''
      = ([\<lparr>Name = ''FOO.YAML'', IsDir = False\<rparr>], None)"
    by (simp add: demo_extern_def)
  from listTargets_upper_case_extension [OF this] show ?thesis .
qed

subsection \<open>The list mode\<close>

lemma main_list_loop_lines:
  "main_list_loop x dirs found out =
     (found \<or> (\<exists>d \<in> set dirs. listed_lines x d \<noteq> []),
      out @ concat (map (listed_lines x) dirs))"
proof (induction dirs arbitrary: found out)
  case Nil
  then show ?case by simp
next
  case (Cons dir dirs)
  show ?case
  proof (cases "listTargets x dir")
    case (Inl err)
    then show ?thesis
      by (simp add: Cons.IH listed_lines_def)
  next
    case (Inr targets)
    then show ?thesis
      by (cases "targets = []") (simp_all add: Cons.IH listed_lines_def)
  qed
qed

text \<open>
  Claim C6, as stated, at a run with \<^verbatim>\<open>--list\<close> in which \<^verbatim>\<open>os.UserHomeDir()\<close> fails:
  the \<^verbatim>\<open>must\<close> at line 75 comes before the list mode, so the process ends with a
  fatal error and status 1, although the directory \<^verbatim>\<open>hosts\<close> can be listed and holds
  a target.
\<close>

theorem main_list_mode_counterexample:
  "flagList (no_flags\<lparr>opt_list := Some True\<rparr>)
   \<and> listTargets ((demo_extern [\<lparr>Name = ''ipa.yaml'', IsDir = False\<rparr>] [])
                      \<lparr>UserHomeDir := Inl (Err ''$HOME is not defined'')\<rparr>) ''hosts''
       = Inr [''ipa'']
   \<and> main (no_flags\<lparr>opt_list := Some True\<rparr>)
           ((demo_extern [\<lparr>Name = ''ipa.yaml'', IsDir = False\<rparr>] [])
              \<lparr>UserHomeDir := Inl (Err ''$HOME is not defined'')\<rparr>)
       = \<lparr>stdout = [''gssh wrapper -- version 1.0.1'' @ [newline]],
          stderr = [''error: $HOME is not defined'' @ [newline]],
          exitCode = 1\<rparr>"
proof -
  have "flagList (no_flags\<lparr>opt_list := Some True\<rparr>)"
    by (simp add: flagList_def no_flags_def)
  moreover have "listTargets ((demo_extern [\<lparr>Name = ''ipa.yaml'', IsDir = False\<rparr>] [])
                      \<lparr>UserHomeDir := Inl (Err ''$HOME is not defined'')\<rparr>) ''hosts''
       = Inr [''ipa'']"
    by (simp add: listTargets_def demo_extern_def sort_Strings_def Ext_def ToLower_def
        toLower_byte_def upper_letters_def lower_letters_def TrimSuffix_def HasSuffix_def)
  moreover have "main (no_flags\<lparr>opt_list := Some True\<rparr>)
           ((demo_extern [\<lparr>Name = ''ipa.yaml'', IsDir = False\<rparr>] [])
              \<lparr>UserHomeDir := Inl (Err ''$HOME is not defined'')\<rparr>)
       = \<lparr>stdout = [''gssh wrapper -- version 1.0.1'' @ [newline]],
          stderr = [''error: $HOME is not defined'' @ [newline]],
          exitCode = 1\<rparr>"
    by (simp add: main_def Let_def fatal_def Println_def Version_def)
  ultimately show ?thesis
    by blast
qed

text \<open>
  Claim C6, amended. When \<^verbatim>\<open>os.UserHomeDir()\<close> has succeeded, a run in the list mode
  prints the version line, then for each candidate directory in order the lines of its
  targets, where a directory whose listing fails contributes nothing, to either stream;
  it prints \<^verbatim>\<open>No targets found.\<close> exactly when no directory contributed a line; and it
  exits with status 0, however many of the directories failed.
\<close>

theorem main_list_mode:
  "UserHomeDir x = Inr homeDir \<Longrightarrow> flagList cl \<Longrightarrow>
     configDirs = [flagConfigDir cl, filepath_Join x homeDir ''hosts''] \<Longrightarrow>
     main cl x =
       \<lparr>stdout = [Println (''gssh wrapper -- version '' @ Version)]
                  @ concat (map (listed_lines x) configDirs)
                  @ (if \<forall>d \<in> set configDirs. listed_lines x d = []
                     then [Println ''No targets found.''] else []),
        stderr = [], exitCode = 0\<rparr>
     \<and> (\<forall>d err. listTargets x d = Inl err \<longrightarrow> listed_lines x d = [])"
  by (auto simp: main_def Let_def main_list_def main_list_loop_lines listed_lines_def)

theorem main_list_mode_witness:
  "main (no_flags\<lparr>opt_list := Some True\<rparr>)
        (demo_extern [\<lparr>Name = ''web.yml'', IsDir = False\<rparr>, \<lparr>Name = ''ipa.yaml'', IsDir = False\<rparr>] [])
     = \<lparr>stdout = [''gssh wrapper -- version 1.0.1'' @ [newline],
                  ''ipa (hosts)'' @ [newline], ''web (hosts)'' @ [newline]],
        stderr = [], exitCode = 0\<rparr>
   \<and> main (no_flags\<lparr>opt_list := Some True, opt_config := Some ''nowhere''\<rparr>) (demo_extern [] [])
     = \<lparr>stdout = [''gssh wrapper -- version 1.0.1'' @ [newline],
                  ''No targets found.'' @ [newline]],
        stderr = [], exitCode = 0\<rparr>"
proof -
  let ?es = "[\<lparr>Name = ''web.yml'', IsDir = False\<rparr>, \<lparr>Name = ''ipa.yaml'', IsDir = False\<rparr>]"
  have home: "UserHomeDir (demo_extern es env) = Inr ''/home/u''" for es env
    by (simp add: demo_extern_def)
  have l1: "listTargets (demo_extern ?es []) ''hosts'' = Inr [''ipa'', ''web'']"
    by (simp add: listTargets_def demo_extern_def sort_Strings_def Ext_def ToLower_def
        toLower_byte_def upper_letters_def lower_letters_def TrimSuffix_def HasSuffix_def)
  have l2: "listTargets (demo_extern es []) ''/home/u/hosts'' = Inl (Err ''no such file or directory'')"
    for es
    by (simp add: listTargets_def demo_extern_def)
  have l3: "listTargets (demo_extern es []) ''nowhere'' = Inl (Err ''no such file or directory'')"
    for es
    by (simp add: listTargets_def demo_extern_def)
  have j: "filepath_Join (demo_extern es env) ''/home/u'' ''hosts'' = ''/home/u/hosts''" for es env
    by (simp add: demo_extern_def)
  have f1: "flagList (no_flags\<lparr>opt_list := Some True\<rparr>)"
    and f2: "flagList (no_flags\<lparr>opt_list := Some True, opt_config := Some ''nowhere''\<rparr>)"
    by (simp_all add: flagList_def no_flags_def)
  have c1: "flagConfigDir (no_flags\<lparr>opt_list := Some True\<rparr>) = ''hosts''"
    and c2: "flagConfigDir (no_flags\<lparr>opt_list := Some True, opt_config := Some ''nowhere''\<rparr>) = ''nowhere''"
    by (simp_all add: flagConfigDir_def no_flags_def)
  from main_list_mode [OF home f1 refl, of ?es "[]"] main_list_mode [OF home f2 refl, of "[]" "[]"]
  show ?thesis
    by (simp add: j c1 c2 listed_lines_def l1 l2 l3 target_line_def Println_def Version_def)
qed

subsection \<open>The merge of the sources\<close>

lemma ToLower_keys:
  "ToLower ''target'' = ''target''" "ToLower ''config'' = ''config''"
  "ToLower ''host'' = ''host''" "ToLower ''user'' = ''user''"
  "ToLower ''port'' = ''port''" "ToLower ''identity'' = ''identity''"
  "ToLower ''list'' = ''list''" "ToLower ''dry-run'' = ''dry-run''"
  "ToLower ''verbose'' = ''verbose''"
  by (simp_all add: ToLower_def toLower_byte_def upper_letters_def lower_letters_def)


lemma ToUpper_GSSH: "ToUpper (''GSSH'' @ ''_'' @ k) = ''GSSH_'' @ ToUpper k"
  by (simp add: ToUpper_def toUpper_byte_def upper_letters_def lower_letters_def)

lemma Replace_GSSH:
  "Replace (NewReplacer CHR ''-'' CHR ''_'') (''GSSH_'' @ s)
     = ''GSSH_'' @ map (\<lambda>c. if c = CHR ''-'' then CHR ''_'' else c) s"
  by (simp add: Replace_def NewReplacer_def)

text \<open>The Viper state that \<open>main_setup\<close> builds.\<close>

lemma BindPFlags_fields:
  "envPrefix (BindPFlags v fs) = envPrefix v"
  "envKeyReplacer (BindPFlags v fs) = envKeyReplacer v"
  "automaticEnvApplied (BindPFlags v fs) = automaticEnvApplied v"
  "defaults (BindPFlags v fs) = defaults v"
  "config (BindPFlags v fs) = config v"
  by (induction v fs rule: BindPFlags.induct) simp_all

lemma setup_pflags:
  "pflags (main_setup cl) ''host''
     = Some \<lparr>Changed = (opt_host cl \<noteq> None), Value = VString (flagHost cl)\<rparr>"
  "pflags (main_setup cl) ''user''
     = Some \<lparr>Changed = (opt_user cl \<noteq> None), Value = VString (flagUser cl)\<rparr>"
  "pflags (main_setup cl) ''port''
     = Some \<lparr>Changed = (opt_port cl \<noteq> None), Value = VInt (flagPort cl)\<rparr>"
  "pflags (main_setup cl) ''identity''
     = Some \<lparr>Changed = (opt_identity cl \<noteq> None), Value = VString (flagIdentity cl)\<rparr>"
  by (simp_all add: main_setup_def Let_def CommandLine_def viper_New_def SetEnvPrefix_def
      SetEnvKeyReplacer_def AutomaticEnv_def SetDefault_def ToLower_keys)

lemma setup_env:
  "envPrefix (main_setup cl) = ''GSSH''"
  "envKeyReplacer (main_setup cl) = Some (NewReplacer CHR ''-'' CHR ''_'')"
  "automaticEnvApplied (main_setup cl)"
  by (simp_all add: main_setup_def Let_def viper_New_def SetEnvPrefix_def
      SetEnvKeyReplacer_def AutomaticEnv_def SetDefault_def BindPFlags_fields)

lemma setup_defaults:
  "defaults (main_setup cl) ''host'' = None"
  "defaults (main_setup cl) ''user'' = None"
  "defaults (main_setup cl) ''port'' = Some (VInt 22)"
  "defaults (main_setup cl) ''identity'' = None"
  by (simp_all add: main_setup_def Let_def viper_New_def SetEnvPrefix_def
      SetEnvKeyReplacer_def AutomaticEnv_def SetDefault_def BindPFlags_fields ToLower_keys)

lemma setup_config: "config (main_setup cl) = Map.empty"
  by (simp add: main_setup_def Let_def viper_New_def SetEnvPrefix_def
      SetEnvKeyReplacer_def AutomaticEnv_def SetDefault_def BindPFlags_fields)


lemma main_load_no_target: "main_load x v [] configDirs = Inr v"
  by (simp add: main_load_def)



text \<open>The lookup, for a bound flag under the settings of \<open>main_setup\<close>.\<close>

lemma viper_find_layers:
  assumes "pflags v k = Some f" and "automaticEnvApplied v" and "envPrefix v = ''GSSH''"
    and "envKeyReplacer v = Some (NewReplacer CHR ''-'' CHR ''_'')"
  shows "viper_find x v k =
     Some (layered (if Changed f then Some (Value f) else None)
             (map_option VString (env_value x (env_name k)))
             (config v k)
             (case defaults v k of Some a \<Rightarrow> a | None \<Rightarrow> Value f))"
proof -
  have "getEnv x v (mergeWithEnvPrefix v k) = env_value x (env_name k)"
    using assms(3,4)
    by (simp add: getEnv_def mergeWithEnvPrefix_def ToUpper_GSSH Replace_GSSH env_value_def
        env_name_def del: append.simps split: option.splits)
  then show ?thesis
    using assms(1,2)
    by (simp add: viper_find_def layered_def split: option.splits)
qed

lemma main_merge_layers:
  assumes "pflags v = pflags (main_setup cl)" and "automaticEnvApplied v"
    and "envPrefix v = ''GSSH''"
    and "envKeyReplacer v = Some (NewReplacer CHR ''-'' CHR ''_'')"
    and "defaults v = defaults (main_setup cl)"
  shows "main_merge x v = layered_profile cl x (config v)"
proof -
  have h: "GetString x v ''host'' = layered (opt_host cl) (env_value x (env_name ''host''))
               (map_option cast_ToString (config v ''host'')) []"
    using assms
    by (simp add: GetString_def ToLower_keys viper_find_layers [OF _ assms(2,3,4)] setup_pflags
        setup_defaults layered_def flagHost_def split: option.splits)
  have u: "GetString x v ''user'' = layered (opt_user cl) (env_value x (env_name ''user''))
               (map_option cast_ToString (config v ''user'')) []"
    using assms
    by (simp add: GetString_def ToLower_keys viper_find_layers [OF _ assms(2,3,4)] setup_pflags
        setup_defaults layered_def flagUser_def split: option.splits)
  have i: "GetString x v ''identity'' = layered (opt_identity cl) (env_value x (env_name ''identity''))
               (map_option cast_ToString (config v ''identity'')) []"
    using assms
    by (simp add: GetString_def ToLower_keys viper_find_layers [OF _ assms(2,3,4)] setup_pflags
        setup_defaults layered_def flagIdentity_def split: option.splits)
  have p: "GetInt x v ''port'' = layered (opt_port cl)
               (map_option (ParseInt x) (env_value x (env_name ''port'')))
               (map_option (cast_ToInt x) (config v ''port'')) 22"
    using assms
    by (simp add: GetInt_def ToLower_keys viper_find_layers [OF _ assms(2,3,4)] setup_pflags
        setup_defaults layered_def flagPort_def split: option.splits)
  show ?thesis
    by (simp add: main_merge_def layered_profile_def h u i p)
qed




subsection \<open>No target, no profile file\<close>

lemma listTargets_ReadConfigFile: "listTargets (x\<lparr>ReadConfigFile := r\<rparr>) dir = listTargets x dir"
  by (simp add: listTargets_def)

lemma main_list_loop_ReadConfigFile:
  "main_list_loop (x\<lparr>ReadConfigFile := r\<rparr>) dirs found out = main_list_loop x dirs found out"
  by (induction dirs arbitrary: found out)
     (simp_all add: listTargets_ReadConfigFile split: sum.splits)

lemma cast_ToInt_files:
  "cast_ToInt (x\<lparr>ReadDir := d, ReadConfigFile := r\<rparr>) a = cast_ToInt x a"
  by (cases a) simp_all

lemma getEnv_files:
  "getEnv (x\<lparr>ReadDir := d, ReadConfigFile := r\<rparr>) v k = getEnv x v k"
  by (simp add: getEnv_def Let_def)

lemma viper_find_files:
  "viper_find (x\<lparr>ReadDir := d, ReadConfigFile := r\<rparr>) v k = viper_find x v k"
  by (simp add: viper_find_def getEnv_files cong: option.case_cong)

lemma main_merge_files:
  "main_merge (x\<lparr>ReadDir := d, ReadConfigFile := r\<rparr>) v = main_merge x v"
  by (simp add: main_merge_def GetString_def GetInt_def viper_find_files cast_ToInt_files
      del: extern.simps split: option.splits)

lemma main_invoke_files:
  "main_invoke cl (x\<lparr>ReadDir := d, ReadConfigFile := r\<rparr>) cfg out = main_invoke cl x cfg out"
  by (simp add: main_invoke_def Let_def cong: sum.case_cong)

text \<open>
  Claim C7. Without a target name no profile file is looked for, read or parsed: the
  loading step returns the Viper state as it is, without an error; the whole run is the
  same whatever reading a profile file would give, and outside the list mode also
  whatever reading a directory would give; and the merged profile is the one that flags,
  environment variables and defaults determine.
\<close>

theorem no_target_no_profile_file:
  "flagTarget cl = [] \<Longrightarrow>
     main_load x v (flagTarget cl) configDirs = Inr v
     \<and> main cl (x\<lparr>ReadConfigFile := r\<rparr>) = main cl x
     \<and> (\<not> flagList cl \<longrightarrow> main cl (x\<lparr>ReadDir := d, ReadConfigFile := r\<rparr>) = main cl x)
     \<and> main_merge x (main_setup cl) = layered_profile cl x Map.empty"
proof -
  assume t: "flagTarget cl = []"
  have a: "main_load x v (flagTarget cl) configDirs = Inr v" for x v configDirs
    using t by (simp add: main_load_no_target)
  have m: "main_merge (x\<lparr>ReadConfigFile := r\<rparr>) v = main_merge x v" for v
    using main_merge_files [where x = x and d = "ReadDir x" and r = r and v = v] by simp
  have i: "main_invoke cl (x\<lparr>ReadConfigFile := r\<rparr>) cfg out = main_invoke cl x cfg out" for cfg out
    using main_invoke_files [where x = x and d = "ReadDir x" and r = r and cfg = cfg and out = out and cl = cl] by simp
  have b: "main cl (x\<lparr>ReadConfigFile := r\<rparr>) = main cl x"
    by (simp add: main_def Let_def a m i main_list_def main_list_loop_ReadConfigFile
        del: main_list_loop.simps split: sum.splits)
  have c: "main cl (x\<lparr>ReadDir := d, ReadConfigFile := r\<rparr>) = main cl x" if "\<not> flagList cl"
    using that
    by (simp add: main_def Let_def a main_merge_files main_invoke_files del: extern.simps
        split: sum.splits)
  have e: "main_merge x (main_setup cl) = layered_profile cl x Map.empty"
    using main_merge_layers [of "main_setup cl" cl x] by (simp add: setup_env setup_config)
  show ?thesis
    using a b c e by blast
qed

theorem no_target_no_profile_file_witness:
  "main (no_flags\<lparr>opt_host := Some ''foo'', opt_dry_run := Some True\<rparr>)
        ((demo_extern [] [])\<lparr>ReadDir := (\<lambda>_. ([], Some (Err ''unreadable''))),
                             ReadConfigFile := (\<lambda>_ _ _. Inl (Err ''malformed''))\<rparr>)
     = \<lparr>stdout = [''gssh wrapper -- version 1.0.1'' @ [newline], ''ssh foo'' @ [newline]],
        stderr = [], exitCode = 0\<rparr>"
proof -
  let ?cl = "no_flags\<lparr>opt_host := Some ''foo'', opt_dry_run := Some True\<rparr>"
  let ?x = "demo_extern [] []"
  let ?cfg = "\<lparr>Host = ''foo'', User = [], Port = 22, Identity = []\<rparr>"
  have t: "flagTarget ?cl = []"
    by (simp add: flagTarget_def no_flags_def)
  have l: "\<not> flagList ?cl"
    by (simp add: flagList_def no_flags_def)
  note fact = no_target_no_profile_file [OF t, of ?x "main_setup ?cl" "[]"
      "\<lambda>_ _ _. Inl (Err ''malformed'')" "\<lambda>_. ([], Some (Err ''unreadable''))"]
  have home: "UserHomeDir ?x = Inr ''/home/u''"
    by (simp add: demo_extern_def)
  have env: "env_value ?x n = None" for n
    by (simp add: env_value_def demo_extern_def)
  have opts: "opt_host ?cl = Some ''foo''" "opt_user ?cl = None" "opt_port ?cl = None"
    "opt_identity ?cl = None"
    by (simp_all add: no_flags_def)
  have merged: "main_merge ?x (main_setup ?cl) = ?cfg"
    using fact by (simp add: layered_profile_def layered_def env opts del: extern.simps)
  have valid: "main_validate ?cfg = Inr ?cfg"
    by (simp add: main_validate_def)
  have dry: "flagDryRun ?cl" "Args ?cl = []"
    by (simp_all add: flagDryRun_def no_flags_def)
  have args: "buildSSHArgs ?cfg [] = [''foo'']"
    by (simp add: buildSSHArgs_def)
  have shown: "renderCommand ''ssh'' [''foo''] = ''ssh foo''"
    by (simp add: renderCommand_def needsQuoting_def ContainsAny_def)
  have invoke: "main_invoke ?cl ?x ?cfg out
      = \<lparr>stdout = out @ [''ssh foo'' @ [newline]], stderr = [], exitCode = 0\<rparr>" for out
    by (simp add: main_invoke_def Let_def dry args shown Println_def)
  have run: "main ?cl ?x
     = \<lparr>stdout = [''gssh wrapper -- version 1.0.1'' @ [newline], ''ssh foo'' @ [newline]],
        stderr = [], exitCode = 0\<rparr>"
    by (simp add: main_def Let_def home l t main_load_no_target merged valid invoke
        Println_def Version_def)
  from fact l run show ?thesis
    by (simp del: extern.simps)
qed

subsection \<open>The validation after the merge\<close>



end
